theory Spec2Isabelle
  imports Complex_Main
begin

section \<open>Component descriptions\<close>

text \<open>
  \<open>ButtonSize\<close> (button.tsx) and \<open>HeaderSize\<close> (header) are the same union of the three
  string literals \<open>'Small' | 'Medium' | 'Large'\<close>; TypeScript types are structural, so one
  datatype stands for both.
\<close>

datatype Size = Small | Medium | Large

type_synonym ButtonSize = Size
type_synonym HeaderSize = Size

text \<open>
  \<open>Color\<close> is declared in theme.tsx, which is not among the sources. The button only reads
  the fields \<open>type\<close> and \<open>def\<close> of a colour, so a colour is a record of these two; the tag
  is kept as the string the source compares it with.
\<close>

record Color =
  type :: string
  "def" :: int

text \<open>
  Modelled from the spec: the type \<open>EventKey<T>\<close> comes from deps.ts, which is not among
  the sources. An Action Key is an opaque value carrying a stable identifier; two keys
  with the same identifier are the same logical action (3). Being an object, a key is
  always truthy in JavaScript, so \<open>!props.event\<close> holds exactly when the field is absent.
\<close>

datatype EventKey = EventKey (keyIdentifier: string)

text \<open>
  The payloads the sources dispatch: \<open>null\<close> (\<open>EventKey<null>\<close>, buttons and crumbs) and
  strings (\<open>EventKey<string>\<close>, the edit events of a header).
\<close>

datatype payload = PNull | PString string

text \<open>The description of a button; an optional field is an \<open>option\<close>.\<close>

record Button =
  event :: "EventKey option"
  color :: "Color option"
  full :: "bool option"
  label :: string
  leadingIcon :: "string option"
  outline :: "bool option"
  size_prop :: "ButtonSize option"
  trailingIcon :: "string option"

text \<open>The description of a breadcrumb; its event is required.\<close>

record Crumb =
  crumb_event :: EventKey
  crumb_text :: string

section \<open>JavaScript helpers\<close>

text \<open>Truthiness of an optional boolean and of an optional string (\<open>''\<close> is falsy).\<close>

definition truthy_bool :: "bool option \<Rightarrow> bool" where
  "truthy_bool b = (b = Some True)"

definition truthy_string :: "string option \<Rightarrow> bool" where
  "truthy_string s = (case s of None \<Rightarrow> False | Some t \<Rightarrow> t \<noteq> [])"

text \<open>
  \<open>Math.round\<close> rounds to the nearest integer, a half towards plus infinity. The scale
  factors are kept as exact rationals; none of the products the button rounds lies near a
  half, so the double arithmetic of the source rounds to the same integers.
\<close>

definition Math_round :: "rat \<Rightarrow> int" where
  "Math_round x = \<lfloor>x + 1 / 2\<rfloor>"

section \<open>The header: icon sizes\<close>

text \<open>\<open>getIconSize\<close> returns a size or throws; the throw is the left injection.\<close>

definition getIconSize :: "HeaderSize \<Rightarrow> string + int" where
  "getIconSize sz =
     (if sz = Large then Inr 25
      else if sz = Medium then Inr 20
      else if sz = Small then Inr 20
      else Inl ''unknown size'')"

section \<open>The dispatcher query and the calls of a click handler\<close>

text \<open>
  \<open>useDispatcher\<close> lives in event.tsx, which is not among the sources. A render function
  takes what the hook returned as an argument: the two flags it reads. The third
  component, \<open>dispatch\<close>, is the function bound to the key that was passed to the hook; a
  call of it appears in the handler's call sequence below.
\<close>

record DispatcherQuery =
  isLoading :: bool
  isDisabled :: bool

type_synonym element = nat

text \<open>
  A DOM click event as the handlers see it: its identity, the element whose handler is
  running, and the data attached to it so far (the bubble marker, see below).
\<close>

record BubbleMarker =
  target :: element
  origin :: nat

record ClickEvent =
  eventId :: nat
  currentTarget :: element
  marker :: "BubbleMarker option"

text \<open>
  What a click handler does is the sequence of calls it makes, in program order, within
  the one synchronous invocation of the handler. None of the handlers reads a result of
  these calls.
\<close>

datatype call =
    ConsoleError string
  | DoBubble element ClickEvent
  | Dispatch "EventKey option" payload

section \<open>The button\<close>

datatype Icon = IconRender string int Color

datatype Spinner = Spinner Color int

record ButtonView =
  px :: int
  py :: int
  backgroundStyles :: string
  borderStyles :: string
  ring :: string
  textColor :: string
  wFull :: bool
  dimmed :: bool
  disabled :: bool
  gap :: int
  contentHidden :: bool
  leading :: "Icon option"
  labelClass :: string
  labelText :: string
  trailing :: "Icon option"
  spinner :: "Spinner option"

definition button_color :: "Button \<Rightarrow> Color" where
  "button_color props =
     (case color props of Some c \<Rightarrow> c | None \<Rightarrow> \<lparr>type = ''Primary'', def = 100\<rparr>)"

definition button_size :: "Button \<Rightarrow> ButtonSize" where
  "button_size props = (case size_prop props of Some s \<Rightarrow> s | None \<Rightarrow> Medium)"

definition button_scale :: "ButtonSize \<Rightarrow> rat" where
  "button_scale sz = (if sz = Large then 1 else if sz = Small then 6 / 10 else 8 / 10)"

definition button_innerColor :: "Button \<Rightarrow> Color" where
  "button_innerColor props =
     (let c = button_color props in
      if truthy_bool (outline props) then c
      else if type c = ''Base'' \<or> type c = ''Fore'' then \<lparr>type = ''Fore'', def = 100\<rparr>
      else \<lparr>type = ''DecorationFore'', def = 100\<rparr>)"

text \<open>
  \<open>ButtonRender\<close>, with \<open>getColor\<close> (utils.ts, not among the sources) and the result of
  \<open>useDispatcher (props.event ?? null)\<close> as arguments. The view records what the JSX
  computes: the numbers that enter the class names, the style strings, the \<open>disabled\<close>
  attribute, the icons and the spinner.
\<close>

text \<open>Line 40 of button.tsx: \<open>const isDisabled = isActionDisabled || isLoading\<close>.\<close>

definition button_isDisabled :: "DispatcherQuery \<Rightarrow> bool" where
  "button_isDisabled q = (isDisabled q \<or> isLoading q)"

definition ButtonRender ::
  "(Color \<Rightarrow> int option \<Rightarrow> string) \<Rightarrow> Button \<Rightarrow> DispatcherQuery \<Rightarrow> ButtonView" where
  "ButtonRender getColor props q =
     (let c = button_color props;
          sz = button_size props;
          scale = button_scale sz;
          off = button_isDisabled q;
          innerColor = button_innerColor props
      in \<lparr> px = Math_round (scale * 14),
           py = Math_round (scale * 8),
           backgroundStyles =
             (if truthy_bool (outline props)
              then ''bg-transparent '' @ (if \<not> off then ''hover:bg-fore-10'' else '''')
              else ''bg-'' @ getColor c None @ '' ''
                   @ (if \<not> off then ''hover:bg-'' @ getColor c (Some (- 10)) else '''')
                   @ '' transition-colors''),
           borderStyles =
             (if truthy_bool (outline props) then ''border border-'' @ getColor c None
              else ''''),
           ring = ''ring-'' @ getColor c (Some 40),
           textColor = ''text-'' @ getColor innerColor (Some 100),
           wFull = truthy_bool (full props),
           dimmed = off,
           disabled = off,
           gap = Math_round (scale * 8),
           contentHidden = isLoading q,
           leading =
             (case leadingIcon props of
                None \<Rightarrow> None
              | Some n \<Rightarrow>
                  if truthy_string (Some n)
                  then Some (IconRender n (Math_round (scale * 18)) innerColor) else None),
           labelClass =
             (if sz = Large then ''text-lg'' else '''') @ '' ''
             @ (if sz = Small then ''text-sm'' else ''''),
           labelText = label props,
           trailing =
             (case trailingIcon props of
                None \<Rightarrow> None
              | Some n \<Rightarrow>
                  if truthy_string (Some n)
                  then Some (IconRender n (Math_round (scale * 18)) innerColor) else None),
           spinner =
             (if isLoading q
              then Some (Spinner innerColor
                           (if sz = Large then 30 else if sz = Medium then 25 else 20))
              else None) \<rparr>)"

text \<open>
  The click handler of the button: without an event it reports on the console and
  returns; otherwise it marks the DOM event for bubbling and dispatches \<open>null\<close> through
  the function the hook bound to \<open>props.event ?? null\<close>.
\<close>

definition ButtonRender_onClick :: "Button \<Rightarrow> ClickEvent \<Rightarrow> call list" where
  "ButtonRender_onClick props ev =
     (if event props = None then [ConsoleError ''button was clicked while disabled'']
      else [DoBubble (currentTarget ev) ev, Dispatch (event props) PNull])"

section \<open>The breadcrumb\<close>

text \<open>The \<open>disabled\<close> attribute of a crumb's button and its click handler.\<close>

definition Crumb_disabled :: "DispatcherQuery \<Rightarrow> bool" where
  "Crumb_disabled q = (isLoading q \<or> isDisabled q)"

definition Crumb_onClick :: "Crumb \<Rightarrow> call list" where
  "Crumb_onClick props = [Dispatch (Some (crumb_event props)) PNull]"

section \<open>The action dispatcher\<close>

text \<open>
  Modelled from the spec: \<open>useDispatcher\<close> and the dispatch routine live in event.tsx,
  which is not among the sources. The definitions of this section follow sections 3, 4.1, 5
  and 7 of the specification.

  There is one Dispatch State per key identifier: a status, the last error, and the
  subscribers (the component instances rendering with this key). The dispatcher owns the
  map from identifiers to states, the log of \<open>submit\<close> calls it made on the external
  channel, the log of the outcomes that came back, what each subscriber was last told
  about \<open>isLoading\<close>, and the diagnostics it logged.
\<close>

datatype status = Idle | InFlight

datatype outcome = Success | Failure string

datatype diagnostic =
    DuplicateDispatchIgnored string
  | MisuseError
  | EngineFailure string string

type_synonym subscriber = nat

record DispatchState =
  status :: status
  lastError :: "string option"
  subscribers :: "subscriber list"

record Dispatcher =
  states :: "string \<Rightarrow> DispatchState"
  channel :: "(string \<times> payload) list"
  resolved :: "(string \<times> outcome) list"
  seen :: "subscriber \<Rightarrow> bool option"
  diagnostics :: "diagnostic list"

definition idle_state :: DispatchState where
  "idle_state = \<lparr>status = Idle, lastError = None, subscribers = []\<rparr>"

definition initial :: Dispatcher where
  "initial = \<lparr>states = (\<lambda>i. idle_state), channel = [], resolved = [],
              seen = (\<lambda>s. None), diagnostics = []\<rparr>"

text \<open>
  Modelled from the spec: notifying the subscribers of a key tells each of them the new
  loading state (4.1).
\<close>

definition notify ::
  "subscriber list \<Rightarrow> bool \<Rightarrow> (subscriber \<Rightarrow> bool option) \<Rightarrow> subscriber \<Rightarrow> bool option" where
  "notify subs v view = (\<lambda>s. if s \<in> set subs then Some v else view s)"

text \<open>
  Modelled from the spec: the query of \<open>useDispatcher\<close> (event.tsx), as 4.1 has it.
  \<open>isLoading\<close> is true iff the key's state is \<open>InFlight\<close>; \<open>isDisabled\<close> is true iff the
  key is \<open>null\<close>.
\<close>

definition useDispatcher :: "Dispatcher \<Rightarrow> EventKey option \<Rightarrow> DispatcherQuery" where
  "useDispatcher d key =
     \<lparr> isLoading =
         (case key of None \<Rightarrow> False
          | Some k \<Rightarrow> status (states d (keyIdentifier k)) = InFlight),
       isDisabled = (key = None) \<rparr>"

text \<open>
  Modelled from the spec: the dispatch function \<open>useDispatcher\<close> returns (event.tsx), as
  4.1 has it, up to the point where it awaits the engine. With no key bound it is misuse,
  which is logged (7); while the key is \<open>InFlight\<close> the call is dropped and logged (7);
  otherwise the state becomes \<open>InFlight\<close>, the subscribers are told, and
  \<open>(keyIdentifier, payload)\<close> is submitted on the channel.
\<close>

definition dispatch :: "EventKey option \<Rightarrow> payload \<Rightarrow> Dispatcher \<Rightarrow> Dispatcher" where
  "dispatch key p d =
     (case key of
        None \<Rightarrow> d\<lparr>diagnostics := diagnostics d @ [MisuseError]\<rparr>
      | Some k \<Rightarrow>
          (let i = keyIdentifier k; st = states d i in
           if status st = InFlight
           then d\<lparr>diagnostics := diagnostics d @ [DuplicateDispatchIgnored i]\<rparr>
           else d\<lparr>states := (states d)(i := st\<lparr>status := InFlight\<rparr>),
                  seen := notify (subscribers st) True (seen d),
                  channel := channel d @ [(i, p)]\<rparr>))"

text \<open>
  Modelled from the spec: the continuation of dispatch (event.tsx) when the engine's
  outcome arrives, as 4.1 and 7 have it. On success the state returns to \<open>Idle\<close> and the
  stored error is cleared; on failure it returns to \<open>Idle\<close>, the error is recorded and a
  diagnostic is logged. In both cases the subscribers are told. An outcome for a key that
  has nothing in flight answers no submission and is dropped.
\<close>

definition resolve :: "string \<Rightarrow> outcome \<Rightarrow> Dispatcher \<Rightarrow> Dispatcher" where
  "resolve i out d =
     (let st = states d i in
      if status st \<noteq> InFlight then d
      else (case out of
              Success \<Rightarrow>
                d\<lparr>states := (states d)(i := st\<lparr>status := Idle, lastError := None\<rparr>),
                  seen := notify (subscribers st) False (seen d),
                  resolved := resolved d @ [(i, out)]\<rparr>
            | Failure e \<Rightarrow>
                d\<lparr>states := (states d)(i := st\<lparr>status := Idle, lastError := Some e\<rparr>),
                  seen := notify (subscribers st) False (seen d),
                  resolved := resolved d @ [(i, out)],
                  diagnostics := diagnostics d @ [EngineFailure i e]\<rparr>))"

text \<open>
  Modelled from the spec: the subscription lifecycle of \<open>useDispatcher\<close> (event.tsx), as
  4.1 has it. A component binds to its key when it mounts, and renders with the state the
  key has at that moment; it unbinds when it unmounts.
\<close>

definition subscribe :: "subscriber \<Rightarrow> EventKey option \<Rightarrow> Dispatcher \<Rightarrow> Dispatcher" where
  "subscribe s key d =
     (case key of
        None \<Rightarrow> d\<lparr>seen := (seen d)(s := Some False)\<rparr>
      | Some k \<Rightarrow>
          (let i = keyIdentifier k; st = states d i in
           d\<lparr>states := (states d)(i := st\<lparr>subscribers := List.insert s (subscribers st)\<rparr>),
             seen := (seen d)(s := Some (status st = InFlight))\<rparr>))"

definition unsubscribe :: "subscriber \<Rightarrow> EventKey option \<Rightarrow> Dispatcher \<Rightarrow> Dispatcher" where
  "unsubscribe s key d =
     (case key of
        None \<Rightarrow> d\<lparr>seen := (seen d)(s := None)\<rparr>
      | Some k \<Rightarrow>
          (let i = keyIdentifier k; st = states d i in
           d\<lparr>states := (states d)(i := st\<lparr>subscribers := removeAll s (subscribers st)\<rparr>),
             seen := (seen d)(s := None)\<rparr>))"

text \<open>
  Modelled from the spec: everything that can happen to a dispatcher, and a run of such
  happenings from left to right. The host is single-threaded (5), so they happen one at
  a time.
\<close>

datatype action =
    DoDispatch "EventKey option" payload
  | Resolve string outcome
  | Mount subscriber "EventKey option"
  | Unmount subscriber "EventKey option"

fun step :: "action \<Rightarrow> Dispatcher \<Rightarrow> Dispatcher" where
  "step (DoDispatch key p) d = dispatch key p d"
| "step (Resolve i out) d = resolve i out d"
| "step (Mount s key) d = subscribe s key d"
| "step (Unmount s key) d = unsubscribe s key d"

fun run :: "action list \<Rightarrow> Dispatcher \<Rightarrow> Dispatcher" where
  "run [] d = d"
| "run (a # as) d = run as (step a d)"

text \<open>
  How many \<open>submit\<close> calls the channel received for an identifier, and how many of them
  have been answered.
\<close>

definition submits :: "string \<Rightarrow> Dispatcher \<Rightarrow> nat" where
  "submits i d = length (filter (\<lambda>c. fst c = i) (channel d))"

definition resolutions :: "string \<Rightarrow> Dispatcher \<Rightarrow> nat" where
  "resolutions i d = length (filter (\<lambda>c. fst c = i) (resolved d))"

text \<open>The \<open>submit\<close> calls for an identifier that are still waiting for their outcome.\<close>

definition in_flight :: "string \<Rightarrow> Dispatcher \<Rightarrow> nat" where
  "in_flight i d = submits i d - resolutions i d"

text \<open>Whether an action is the arrival of an outcome for the identifier.\<close>

fun resolves :: "string \<Rightarrow> action \<Rightarrow> bool" where
  "resolves i (Resolve j out) = (j = i)"
| "resolves i a = False"

section \<open>Performing the calls of a handler\<close>

text \<open>
  A handler's calls act on the dispatcher and on the console. \<open>doBubble\<close> writes to the
  DOM event only, which is part of neither.
\<close>

record World =
  dispatcher :: Dispatcher
  console :: "string list"

fun perform :: "call \<Rightarrow> World \<Rightarrow> World" where
  "perform (ConsoleError msg) w = w\<lparr>console := console w @ [msg]\<rparr>"
| "perform (DoBubble e ev) w = w"
| "perform (Dispatch key p) w = w\<lparr>dispatcher := dispatch key p (dispatcher w)\<rparr>"

fun perform_all :: "call list \<Rightarrow> World \<Rightarrow> World" where
  "perform_all [] w = w"
| "perform_all (c # cs) w = perform_all cs (perform c w)"

section \<open>Event bubbling\<close>












section \<open>Properties of call sequences\<close>

text \<open>
  Every \<open>dispatch\<close> of a call sequence comes after a \<open>doBubble\<close> of the same sequence; the
  flag says whether a mark has been seen so far.
\<close>

fun marks_before_dispatch :: "bool \<Rightarrow> call list \<Rightarrow> bool" where
  "marks_before_dispatch m [] = True"
| "marks_before_dispatch m (ConsoleError msg # cs) = marks_before_dispatch m cs"
| "marks_before_dispatch m (DoBubble e ev # cs) = marks_before_dispatch True cs"
| "marks_before_dispatch m (Dispatch key p # cs) = (m \<and> marks_before_dispatch m cs)"

section \<open>The header's icon sizes are total\<close>

text \<open>
  C10. For each of the three values of \<open>HeaderSize\<close>, \<open>getIconSize\<close> returns a size: 25
  for Large, 20 for Medium and for Small. It never takes the branch that throws
  \<open>unknown size\<close>.
\<close>

theorem getIconSize_returns:
  "getIconSize sz = Inr (case sz of Large \<Rightarrow> 25 | Medium \<Rightarrow> 20 | Small \<Rightarrow> 20)
   \<and> (\<forall>e. getIconSize sz \<noteq> Inl e)"
  by (cases sz) (simp_all add: getIconSize_def)

section \<open>The button's defaults\<close>

text \<open>
  C9. A button without a colour renders exactly as one with colour Primary, def 100, and
  Primary 100 is the colour its ring, background, border and text are computed from; a
  button without a size renders exactly as one of size Medium, with Medium's paddings,
  gap, icon size, label class and spinner; the scale is 1 for Large, 0.8 for Medium and
  0.6 for Small, and it is the scale the paddings and the gap of the rendered button are
  rounded from: 14, 8 and 8 for Large, 11, 6 and 6 for Medium, 8, 5 and 5 for Small.
\<close>

theorem ButtonRender_defaults:
  "ButtonRender getColor (props\<lparr>color := None\<rparr>) q
     = ButtonRender getColor (props\<lparr>color := Some \<lparr>type = ''Primary'', def = 100\<rparr>\<rparr>) q
   \<and> ButtonRender getColor (props\<lparr>size_prop := None\<rparr>) q
     = ButtonRender getColor (props\<lparr>size_prop := Some Medium\<rparr>) q
   \<and> button_scale Large = 1 \<and> button_scale Medium = 8 / 10 \<and> button_scale Small = 6 / 10
   \<and> px (ButtonRender getColor props q) = Math_round (button_scale (button_size props) * 14)
   \<and> py (ButtonRender getColor props q) = Math_round (button_scale (button_size props) * 8)
   \<and> gap (ButtonRender getColor props q) = Math_round (button_scale (button_size props) * 8)
   \<and> button_size (props\<lparr>size_prop := None\<rparr>) = Medium
   \<and> button_size (props\<lparr>size_prop := Some sz\<rparr>) = sz
   \<and> px (ButtonRender getColor (props\<lparr>size_prop := Some Large\<rparr>) q) = 14
   \<and> py (ButtonRender getColor (props\<lparr>size_prop := Some Large\<rparr>) q) = 8
   \<and> gap (ButtonRender getColor (props\<lparr>size_prop := Some Large\<rparr>) q) = 8
   \<and> px (ButtonRender getColor (props\<lparr>size_prop := Some Medium\<rparr>) q) = 11
   \<and> py (ButtonRender getColor (props\<lparr>size_prop := Some Medium\<rparr>) q) = 6
   \<and> gap (ButtonRender getColor (props\<lparr>size_prop := Some Medium\<rparr>) q) = 6
   \<and> px (ButtonRender getColor (props\<lparr>size_prop := Some Small\<rparr>) q) = 8
   \<and> py (ButtonRender getColor (props\<lparr>size_prop := Some Small\<rparr>) q) = 5
   \<and> gap (ButtonRender getColor (props\<lparr>size_prop := Some Small\<rparr>) q) = 5
   \<and> px (ButtonRender getColor (props\<lparr>size_prop := None\<rparr>) q) = 11
   \<and> py (ButtonRender getColor (props\<lparr>size_prop := None\<rparr>) q) = 6
   \<and> gap (ButtonRender getColor (props\<lparr>size_prop := None\<rparr>) q) = 6
   \<and> labelClass (ButtonRender getColor (props\<lparr>size_prop := None\<rparr>) q) = '' ''
   \<and> spinner (ButtonRender getColor (props\<lparr>size_prop := None\<rparr>) (q\<lparr>isLoading := True\<rparr>))
       = Some (Spinner (button_innerColor props) 25)
   \<and> leading (ButtonRender getColor (props\<lparr>size_prop := None, leadingIcon := Some ''mdi-x''\<rparr>) q)
       = Some (IconRender ''mdi-x'' 14 (button_innerColor props))
   \<and> ring (ButtonRender getColor (props\<lparr>color := None\<rparr>) q)
       = ''ring-'' @ getColor \<lparr>type = ''Primary'', def = 100\<rparr> (Some 40)
   \<and> backgroundStyles (ButtonRender getColor (props\<lparr>color := None, outline := None\<rparr>) q)
       = ''bg-'' @ getColor \<lparr>type = ''Primary'', def = 100\<rparr> None @ '' ''
         @ (if \<not> button_isDisabled q
            then ''hover:bg-'' @ getColor \<lparr>type = ''Primary'', def = 100\<rparr> (Some (- 10)) else [])
         @ '' transition-colors''
   \<and> textColor (ButtonRender getColor (props\<lparr>color := None, outline := None\<rparr>) q)
       = ''text-'' @ getColor \<lparr>type = ''DecorationFore'', def = 100\<rparr> (Some 100)
   \<and> borderStyles (ButtonRender getColor (props\<lparr>color := None, outline := Some True\<rparr>) q)
       = ''border border-'' @ getColor \<lparr>type = ''Primary'', def = 100\<rparr> None
   \<and> textColor (ButtonRender getColor (props\<lparr>color := None, outline := Some True\<rparr>) q)
       = ''text-'' @ getColor \<lparr>type = ''Primary'', def = 100\<rparr> (Some 100)"
proof -
  have same: "ButtonRender getColor (props\<lparr>color := None\<rparr>) q
       = ButtonRender getColor (props\<lparr>color := Some \<lparr>type = ''Primary'', def = 100\<rparr>\<rparr>) q"
    "ButtonRender getColor (props\<lparr>size_prop := None\<rparr>) q
       = ButtonRender getColor (props\<lparr>size_prop := Some Medium\<rparr>) q"
    by (simp_all add: ButtonRender_def button_color_def button_size_def button_innerColor_def
        button_scale_def)
  have scales: "button_scale Large = 1" "button_scale Medium = 8 / 10"
    "button_scale Small = 6 / 10"
    by (simp_all add: button_scale_def)
  have tied: "px (ButtonRender getColor props q)
         = Math_round (button_scale (button_size props) * 14)"
    "py (ButtonRender getColor props q) = Math_round (button_scale (button_size props) * 8)"
    "gap (ButtonRender getColor props q) = Math_round (button_scale (button_size props) * 8)"
    "button_size (props\<lparr>size_prop := None\<rparr>) = Medium"
    "button_size (props\<lparr>size_prop := Some sz\<rparr>) = sz"
    by (simp_all add: ButtonRender_def button_size_def Let_def)
  have large: "px (ButtonRender getColor (props\<lparr>size_prop := Some Large\<rparr>) q) = 14"
    "py (ButtonRender getColor (props\<lparr>size_prop := Some Large\<rparr>) q) = 8"
    "gap (ButtonRender getColor (props\<lparr>size_prop := Some Large\<rparr>) q) = 8"
    by (simp_all add: ButtonRender_def button_size_def button_scale_def Math_round_def Let_def
        floor_eq_iff)
  have medium: "px (ButtonRender getColor (props\<lparr>size_prop := Some Medium\<rparr>) q) = 11"
    "py (ButtonRender getColor (props\<lparr>size_prop := Some Medium\<rparr>) q) = 6"
    "gap (ButtonRender getColor (props\<lparr>size_prop := Some Medium\<rparr>) q) = 6"
    by (simp_all add: ButtonRender_def button_size_def button_scale_def Math_round_def Let_def
        floor_eq_iff)
  have small: "px (ButtonRender getColor (props\<lparr>size_prop := Some Small\<rparr>) q) = 8"
    "py (ButtonRender getColor (props\<lparr>size_prop := Some Small\<rparr>) q) = 5"
    "gap (ButtonRender getColor (props\<lparr>size_prop := Some Small\<rparr>) q) = 5"
    by (simp_all add: ButtonRender_def button_size_def button_scale_def Math_round_def Let_def
        floor_eq_iff)
  have absent: "px (ButtonRender getColor (props\<lparr>size_prop := None\<rparr>) q) = 11"
    "py (ButtonRender getColor (props\<lparr>size_prop := None\<rparr>) q) = 6"
    "gap (ButtonRender getColor (props\<lparr>size_prop := None\<rparr>) q) = 6"
    "labelClass (ButtonRender getColor (props\<lparr>size_prop := None\<rparr>) q) = '' ''"
    by (simp_all add: ButtonRender_def button_size_def button_scale_def Math_round_def Let_def
        floor_eq_iff)
  have inner: "button_innerColor (props\<lparr>size_prop := None\<rparr>) = button_innerColor props"
    "button_innerColor (props\<lparr>size_prop := None, leadingIcon := Some ''mdi-x''\<rparr>)
       = button_innerColor props"
    by (simp_all add: button_innerColor_def button_color_def)
  have spin: "spinner (ButtonRender getColor (props\<lparr>size_prop := None\<rparr>)
         (q\<lparr>isLoading := True\<rparr>)) = Some (Spinner (button_innerColor props) 25)"
    by (simp add: ButtonRender_def button_size_def Let_def inner)
  have icon: "leading (ButtonRender getColor
         (props\<lparr>size_prop := None, leadingIcon := Some ''mdi-x''\<rparr>) q)
       = Some (IconRender ''mdi-x'' 14 (button_innerColor props))"
    by (simp add: ButtonRender_def button_size_def button_scale_def Math_round_def Let_def
        truthy_string_def floor_eq_iff inner)
  have ringed: "ring (ButtonRender getColor (props\<lparr>color := None\<rparr>) q)
       = ''ring-'' @ getColor \<lparr>type = ''Primary'', def = 100\<rparr> (Some 40)"
    by (simp add: ButtonRender_def button_color_def Let_def)
  have filled: "backgroundStyles (ButtonRender getColor (props\<lparr>color := None, outline := None\<rparr>) q)
       = ''bg-'' @ getColor \<lparr>type = ''Primary'', def = 100\<rparr> None @ '' ''
         @ (if \<not> button_isDisabled q
            then ''hover:bg-'' @ getColor \<lparr>type = ''Primary'', def = 100\<rparr> (Some (- 10)) else [])
         @ '' transition-colors''"
    "textColor (ButtonRender getColor (props\<lparr>color := None, outline := None\<rparr>) q)
       = ''text-'' @ getColor \<lparr>type = ''DecorationFore'', def = 100\<rparr> (Some 100)"
    by (simp_all add: ButtonRender_def button_color_def button_innerColor_def truthy_bool_def
        Let_def)
  have outlined: "borderStyles (ButtonRender getColor
         (props\<lparr>color := None, outline := Some True\<rparr>) q)
       = ''border border-'' @ getColor \<lparr>type = ''Primary'', def = 100\<rparr> None"
    "textColor (ButtonRender getColor (props\<lparr>color := None, outline := Some True\<rparr>) q)
       = ''text-'' @ getColor \<lparr>type = ''Primary'', def = 100\<rparr> (Some 100)"
    by (simp_all add: ButtonRender_def button_color_def button_innerColor_def truthy_bool_def
        Let_def)
  show ?thesis
    by (intro conjI same scales tied large medium small absent spin icon ringed filled
        outlined)
qed

section \<open>A loading control is disabled\<close>

text \<open>
  C5. Whatever the dispatcher returns to a component, at any moment and also to a
  component that mounts while the dispatch is in flight: when \<open>isLoading\<close> is true, the
  button's \<open>isDisabled\<close> and its \<open>disabled\<close> attribute are true, and so is the
  \<open>disabled\<close> attribute of a crumb.
\<close>

theorem loading_control_is_disabled:
  "isLoading q \<Longrightarrow>
     button_isDisabled q \<and> disabled (ButtonRender getColor props q) \<and> Crumb_disabled q"
  by (simp add: ButtonRender_def Let_def button_isDisabled_def Crumb_disabled_def)

theorem loading_control_is_disabled_witness:
  "isLoading \<lparr>isLoading = True, isDisabled = False\<rparr>
   \<and> button_isDisabled \<lparr>isLoading = True, isDisabled = False\<rparr>
   \<and> disabled (ButtonRender (\<lambda>c n. type c)
        \<lparr>event = Some (EventKey ''K1''), color = None, full = None, label = ''Save'',
         leadingIcon = None, outline = None, size_prop = None, trailingIcon = None\<rparr>
        \<lparr>isLoading = True, isDisabled = False\<rparr>)
   \<and> Crumb_disabled \<lparr>isLoading = True, isDisabled = False\<rparr>"
  using loading_control_is_disabled [of "\<lparr>isLoading = True, isDisabled = False\<rparr>" "\<lambda>c n. type c"
      "\<lparr>event = Some (EventKey ''K1''), color = None, full = None, label = ''Save'',
         leadingIcon = None, outline = None, size_prop = None, trailingIcon = None\<rparr>"]
  by simp

text \<open>
  With the dispatcher of the specification: a component that mounts on a key in flight is
  told \<open>isLoading = true\<close> at once, and the control it renders is disabled.
\<close>

lemma mounted_in_flight_is_disabled:
  "status (states d (keyIdentifier k)) = InFlight \<Longrightarrow>
     seen (subscribe s (Some k) d) s = Some True
     \<and> isLoading (useDispatcher (subscribe s (Some k) d) (Some k))
     \<and> disabled (ButtonRender getColor props (useDispatcher (subscribe s (Some k) d) (Some k)))
     \<and> Crumb_disabled (useDispatcher (subscribe s (Some k) d) (Some k))"
  by (simp add: subscribe_def useDispatcher_def ButtonRender_def button_isDisabled_def
      Crumb_disabled_def Let_def)

section \<open>A click on a button without an event\<close>

text \<open>
  C7. When a click reaches the handler of a button that has no event, the handler's only
  call is \<open>console.error\<close>: it calls neither \<open>doBubble\<close> nor \<open>dispatch\<close>, it throws
  nothing, and performing its calls leaves the dispatcher as it was and adds the
  message to the console.
\<close>

theorem unbound_click_reports:
  "event props = None \<Longrightarrow>
     ButtonRender_onClick props ev = [ConsoleError ''button was clicked while disabled'']
     \<and> dispatcher (perform_all (ButtonRender_onClick props ev) w) = dispatcher w
     \<and> console (perform_all (ButtonRender_onClick props ev) w)
         = console w @ [''button was clicked while disabled'']"
  by (simp add: ButtonRender_onClick_def)

theorem unbound_click_reports_witness:
  "event \<lparr>event = None, color = None, full = None, label = ''Save'',
         leadingIcon = None, outline = None, size_prop = None, trailingIcon = None\<rparr> = None
   \<and> perform_all (ButtonRender_onClick \<lparr>event = None, color = None, full = None, label = ''Save'',
         leadingIcon = None, outline = None, size_prop = None, trailingIcon = None\<rparr>
         \<lparr>eventId = 1, currentTarget = 7, marker = None\<rparr>)
         \<lparr>dispatcher = initial, console = []\<rparr>
       = \<lparr>dispatcher = initial, console = [''button was clicked while disabled'']\<rparr>"
  using unbound_click_reports [of "\<lparr>event = None, color = None, full = None, label = ''Save'',
         leadingIcon = None, outline = None, size_prop = None, trailingIcon = None\<rparr>"
         "\<lparr>eventId = 1, currentTarget = 7, marker = None\<rparr>"
         "\<lparr>dispatcher = initial, console = []\<rparr>"]
  by simp

section \<open>Marking before dispatching\<close>

text \<open>
  The click handler of a crumb takes no event and calls \<open>dispatch\<close> alone: its dispatch is
  not preceded by a mark.
\<close>

theorem crumb_click_does_not_mark:
  "Crumb_onClick \<lparr>crumb_event = EventKey ''K1'', crumb_text = ''Home''\<rparr>
     = [Dispatch (Some (EventKey ''K1'')) PNull]
   \<and> \<not> marks_before_dispatch False
        (Crumb_onClick \<lparr>crumb_event = EventKey ''K1'', crumb_text = ''Home''\<rparr>)"
  by (simp add: Crumb_onClick_def)

text \<open>
  C6, as the code has it. On a click with an event bound, the button's handler calls
  \<open>doBubble\<close> on the event's current target and the event, and then \<open>dispatch\<close> with
  \<open>null\<close>, both within the one handler invocation; every dispatch of the handler comes
  after a mark. The crumb's handler calls \<open>dispatch\<close> with \<open>null\<close> and nothing else.
\<close>

theorem click_marks_then_dispatches:
  "event props = Some k \<Longrightarrow>
     ButtonRender_onClick props ev = [DoBubble (currentTarget ev) ev, Dispatch (Some k) PNull]
     \<and> marks_before_dispatch False (ButtonRender_onClick props ev)
     \<and> Crumb_onClick c = [Dispatch (Some (crumb_event c)) PNull]"
  by (simp add: ButtonRender_onClick_def Crumb_onClick_def)

theorem click_marks_then_dispatches_witness:
  "event \<lparr>event = Some (EventKey ''K1''), color = None, full = None, label = ''Save'',
         leadingIcon = None, outline = None, size_prop = None, trailingIcon = None\<rparr>
     = Some (EventKey ''K1'')
   \<and> ButtonRender_onClick \<lparr>event = Some (EventKey ''K1''), color = None, full = None,
         label = ''Save'', leadingIcon = None, outline = None, size_prop = None,
         trailingIcon = None\<rparr> \<lparr>eventId = 1, currentTarget = 7, marker = None\<rparr>
     = [DoBubble 7 \<lparr>eventId = 1, currentTarget = 7, marker = None\<rparr>,
        Dispatch (Some (EventKey ''K1'')) PNull]"
  using click_marks_then_dispatches [of "\<lparr>event = Some (EventKey ''K1''), color = None,
         full = None, label = ''Save'', leadingIcon = None, outline = None, size_prop = None,
         trailingIcon = None\<rparr>" "EventKey ''K1''"
         "\<lparr>eventId = 1, currentTarget = 7, marker = None\<rparr>"]
  by simp

section \<open>No key bound\<close>

text \<open>
  C3. A query with no key returns \<open>isDisabled = true\<close> (and the button rendered from it is
  disabled); the dispatch function it returns, for every payload, changes no Dispatch
  State, submits nothing on the channel and notifies nobody: all it does is log the
  misuse.
\<close>

theorem null_key_disabled_noop:
  "isDisabled (useDispatcher d None)
   \<and> \<not> isLoading (useDispatcher d None)
   \<and> disabled (ButtonRender getColor (props\<lparr>event := None\<rparr>) (useDispatcher d None))
   \<and> dispatch None p d = d\<lparr>diagnostics := diagnostics d @ [MisuseError]\<rparr>
   \<and> states (dispatch None p d) = states d
   \<and> channel (dispatch None p d) = channel d
   \<and> resolved (dispatch None p d) = resolved d
   \<and> seen (dispatch None p d) = seen d"
  by (simp add: useDispatcher_def dispatch_def ButtonRender_def Let_def button_isDisabled_def)

section \<open>At most one dispatch in flight\<close>

text \<open>
  For each identifier, the \<open>submit\<close> calls exceed the outcomes received by one while the
  key is \<open>InFlight\<close> and by none otherwise; every step keeps this.
\<close>

lemma step_balanced:
  assumes "submits i d = resolutions i d + (if status (states d i) = InFlight then 1 else 0)"
  shows "submits i (step a d)
           = resolutions i (step a d) + (if status (states (step a d) i) = InFlight then 1 else 0)"
proof (cases a)
  case (DoDispatch key p)
  then show ?thesis using assms
    by (auto simp: dispatch_def submits_def resolutions_def Let_def split: option.splits)
next
  case (Resolve j out)
  then show ?thesis using assms
    by (auto simp: resolve_def submits_def resolutions_def Let_def split: outcome.splits)
next
  case (Mount s key)
  then show ?thesis using assms
    by (auto simp: subscribe_def submits_def resolutions_def Let_def split: option.splits)
next
  case (Unmount s key)
  then show ?thesis using assms
    by (auto simp: unsubscribe_def submits_def resolutions_def Let_def split: option.splits)
qed

lemma run_balanced:
  "submits i d = resolutions i d + (if status (states d i) = InFlight then 1 else 0) \<Longrightarrow>
   submits i (run acts d)
     = resolutions i (run acts d) + (if status (states (run acts d) i) = InFlight then 1 else 0)"
proof (induction acts arbitrary: d)
  case Nil
  then show ?case by simp
next
  case (Cons a acts)
  show ?case using Cons.IH [OF step_balanced [OF Cons.prems]] by simp
qed

lemma initial_balanced:
  "submits i initial
     = resolutions i initial + (if status (states initial i) = InFlight then 1 else 0)"
  by (simp add: initial_def idle_state_def submits_def resolutions_def)

text \<open>While a key is in flight, nothing but its outcome ends that or submits for it again.\<close>

lemma step_keeps_in_flight:
  assumes "status (states d i) = InFlight" and "\<not> resolves i a"
  shows "status (states (step a d) i) = InFlight \<and> submits i (step a d) = submits i d"
proof (cases a)
  case (DoDispatch key p)
  then show ?thesis using assms
    by (auto simp: dispatch_def submits_def Let_def split: option.splits)
next
  case (Resolve j out)
  then show ?thesis using assms
    by (auto simp: resolve_def submits_def Let_def split: outcome.splits)
next
  case (Mount s key)
  then show ?thesis using assms
    by (auto simp: subscribe_def submits_def Let_def split: option.splits)
next
  case (Unmount s key)
  then show ?thesis using assms
    by (auto simp: unsubscribe_def submits_def Let_def split: option.splits)
qed

lemma run_keeps_in_flight:
  "status (states d i) = InFlight \<Longrightarrow> \<forall>a\<in>set acts. \<not> resolves i a \<Longrightarrow>
   status (states (run acts d) i) = InFlight \<and> submits i (run acts d) = submits i d"
proof (induction acts arbitrary: d)
  case Nil
  then show ?case by simp
next
  case (Cons a acts)
  from Cons.prems have a: "\<not> resolves i a" and rest: "\<forall>b\<in>set acts. \<not> resolves i b"
    by simp_all
  from step_keeps_in_flight [OF Cons.prems(1) a]
  have s: "status (states (step a d) i) = InFlight" and n: "submits i (step a d) = submits i d"
    by simp_all
  from Cons.IH [OF s rest] n show ?case by simp
qed

lemma dispatch_idle:
  "status (states d (keyIdentifier k)) = Idle \<Longrightarrow>
   status (states (dispatch (Some k) p d) (keyIdentifier k)) = InFlight
   \<and> channel (dispatch (Some k) p d) = channel d @ [(keyIdentifier k, p)]
   \<and> submits (keyIdentifier k) (dispatch (Some k) p d) = Suc (submits (keyIdentifier k) d)"
  by (simp add: dispatch_def submits_def Let_def)

lemma dispatch_in_flight:
  "status (states d (keyIdentifier k)) = InFlight \<Longrightarrow>
   dispatch (Some k) p d
     = d\<lparr>diagnostics := diagnostics d @ [DuplicateDispatchIgnored (keyIdentifier k)]\<rparr>"
  by (simp add: dispatch_def Let_def)

text \<open>
  Two clicks in a row on buttons bound to the same key, from the initial dispatcher: the
  channel receives one \<open>submit\<close>.
\<close>

lemma double_click_submits_once:
  "channel (dispatcher (perform_all
        (ButtonRender_onClick (props\<lparr>event := Some k\<rparr>) ev
         @ ButtonRender_onClick (props'\<lparr>event := Some k\<rparr>) ev')
        \<lparr>dispatcher = initial, console = []\<rparr>)) = [(keyIdentifier k, PNull)]"
  by (simp add: ButtonRender_onClick_def dispatch_def initial_def idle_state_def Let_def)

text \<open>
  C1. In every state the dispatcher can reach, each identifier has at most one submission
  waiting for its outcome, and it has one exactly while its state is \<open>InFlight\<close>. A
  dispatch for a key that is \<open>InFlight\<close> changes no Dispatch State, notifies nobody and
  submits nothing. After a dispatch for an idle key, whatever happens next short of the
  outcome for that key (further dispatches included), the key stays \<open>InFlight\<close> and the
  channel has received exactly one more \<open>submit\<close> for it.
\<close>

theorem single_in_flight:
  "submits i (run acts initial) = resolutions i (run acts initial) + in_flight i (run acts initial)
   \<and> in_flight i (run acts initial) \<le> 1
   \<and> (in_flight i (run acts initial) = 1
        \<longleftrightarrow> status (states (run acts initial) i) = InFlight)
   \<and> (status (states d (keyIdentifier k)) = InFlight \<longrightarrow>
        states (dispatch (Some k) p d) = states d
        \<and> channel (dispatch (Some k) p d) = channel d
        \<and> seen (dispatch (Some k) p d) = seen d
        \<and> resolved (dispatch (Some k) p d) = resolved d)
   \<and> (status (states d (keyIdentifier k)) = Idle
        \<and> (\<forall>a\<in>set later. \<not> resolves (keyIdentifier k) a) \<longrightarrow>
        status (states (run later (dispatch (Some k) p d)) (keyIdentifier k)) = InFlight
        \<and> submits (keyIdentifier k) (run later (dispatch (Some k) p d))
            = Suc (submits (keyIdentifier k) d))"
proof -
  have bal: "submits i (run acts initial) = resolutions i (run acts initial)
               + (if status (states (run acts initial) i) = InFlight then 1 else 0)"
    by (rule run_balanced [OF initial_balanced])
  have sum: "submits i (run acts initial)
               = resolutions i (run acts initial) + in_flight i (run acts initial)"
    using bal by (simp add: in_flight_def)
  have one: "in_flight i (run acts initial) \<le> 1"
    using bal by (simp add: in_flight_def split: if_splits)
  have iff: "in_flight i (run acts initial) = 1
               \<longleftrightarrow> status (states (run acts initial) i) = InFlight"
    using bal by (simp add: in_flight_def split: if_splits)
  have dup: "status (states d (keyIdentifier k)) = InFlight \<longrightarrow>
        states (dispatch (Some k) p d) = states d
        \<and> channel (dispatch (Some k) p d) = channel d
        \<and> seen (dispatch (Some k) p d) = seen d
        \<and> resolved (dispatch (Some k) p d) = resolved d"
    by (simp add: dispatch_in_flight)
  have once: "status (states d (keyIdentifier k)) = Idle
        \<and> (\<forall>a\<in>set later. \<not> resolves (keyIdentifier k) a) \<longrightarrow>
        status (states (run later (dispatch (Some k) p d)) (keyIdentifier k)) = InFlight
        \<and> submits (keyIdentifier k) (run later (dispatch (Some k) p d))
            = Suc (submits (keyIdentifier k) d)"
  proof (intro impI, elim conjE)
    assume idle: "status (states d (keyIdentifier k)) = Idle"
      and later: "\<forall>a\<in>set later. \<not> resolves (keyIdentifier k) a"
    from dispatch_idle [OF idle, of p]
    have s: "status (states (dispatch (Some k) p d) (keyIdentifier k)) = InFlight"
      and n: "submits (keyIdentifier k) (dispatch (Some k) p d) = Suc (submits (keyIdentifier k) d)"
      by simp_all
    from run_keeps_in_flight [OF s later] n
    show "status (states (run later (dispatch (Some k) p d)) (keyIdentifier k)) = InFlight
        \<and> submits (keyIdentifier k) (run later (dispatch (Some k) p d))
            = Suc (submits (keyIdentifier k) d)"
      by simp
  qed
  from sum one iff dup once show ?thesis by blast
qed

text \<open>A dispatch for \<open>K1\<close> from the initial dispatcher, and a second one while it is in flight.\<close>

theorem single_in_flight_witness:
  "status (states initial (keyIdentifier (EventKey ''K1''))) = Idle
   \<and> status (states (dispatch (Some (EventKey ''K1'')) PNull initial)
        (keyIdentifier (EventKey ''K1''))) = InFlight
   \<and> channel (dispatch (Some (EventKey ''K1'')) PNull
        (dispatch (Some (EventKey ''K1'')) PNull initial))
       = channel (dispatch (Some (EventKey ''K1'')) PNull initial)
   \<and> submits ''K1'' (run [DoDispatch (Some (EventKey ''K1'')) PNull]
        (dispatch (Some (EventKey ''K1'')) PNull initial)) = 1
   \<and> in_flight ''K1'' (run [DoDispatch (Some (EventKey ''K1'')) PNull,
        DoDispatch (Some (EventKey ''K1'')) PNull] initial) = 1"
proof -
  let ?k = "EventKey ''K1''"
  let ?d = "dispatch (Some ?k) PNull initial"
  have id: "keyIdentifier ?k = ''K1''"
    by simp
  have idle: "status (states initial (keyIdentifier ?k)) = Idle"
    by (simp add: initial_def idle_state_def)
  have none: "submits (keyIdentifier ?k) initial = 0"
    by (simp add: initial_def submits_def)
  have later: "\<forall>a\<in>set [DoDispatch (Some ?k) PNull]. \<not> resolves (keyIdentifier ?k) a"
    by simp
  have nothing: "\<forall>a\<in>set []. \<not> resolves (keyIdentifier ?k) a"
    by simp
  from single_in_flight [of "''K1''" "[]" initial ?k PNull "[]"] idle nothing
  have busy: "status (states ?d (keyIdentifier ?k)) = InFlight"
    by simp
  from single_in_flight [of "''K1''" "[]" ?d ?k PNull "[]"] busy
  have dup: "channel (dispatch (Some ?k) PNull ?d) = channel ?d"
    by blast
  from single_in_flight [of "''K1''" "[]" initial ?k PNull "[DoDispatch (Some ?k) PNull]"]
    idle later none
  have once: "submits (keyIdentifier ?k) (run [DoDispatch (Some ?k) PNull] ?d) = 1"
    and still: "status (states (run [DoDispatch (Some ?k) PNull] ?d) (keyIdentifier ?k)) = InFlight"
    by simp_all
  have unfold: "run [DoDispatch (Some ?k) PNull, DoDispatch (Some ?k) PNull] initial
                  = run [DoDispatch (Some ?k) PNull] ?d"
    by simp
  from single_in_flight [of "''K1''" "[DoDispatch (Some ?k) PNull, DoDispatch (Some ?k) PNull]"
      initial ?k PNull "[]"] still
  have fl: "in_flight ''K1'' (run [DoDispatch (Some ?k) PNull,
              DoDispatch (Some ?k) PNull] initial) = 1"
    unfolding unfold id by blast
  from idle busy dup once fl show ?thesis
    unfolding id by blast
qed

section \<open>All subscribers of a key see its loading state\<close>

lemma notify_member: "s \<in> set subs \<Longrightarrow> notify subs v view s = Some v"
  by (simp add: notify_def)

text \<open>
  C2. When dispatch takes a key from \<open>Idle\<close> to \<open>InFlight\<close>, every subscriber of the key
  has been told \<open>isLoading = true\<close> in the state dispatch leaves behind, in which no
  outcome has arrived yet; when the outcome arrives, success or failure, every one of
  them has been told \<open>isLoading = false\<close> and the key is \<open>Idle\<close>.
\<close>

theorem subscribers_observe_loading:
  "status (states d (keyIdentifier k)) = Idle \<Longrightarrow>
     (\<forall>s\<in>set (subscribers (states d (keyIdentifier k))).
        seen (dispatch (Some k) p d) s = Some True)
     \<and> status (states (dispatch (Some k) p d) (keyIdentifier k)) = InFlight
     \<and> resolved (dispatch (Some k) p d) = resolved d
     \<and> subscribers (states (dispatch (Some k) p d) (keyIdentifier k))
         = subscribers (states d (keyIdentifier k))
     \<and> (\<forall>s\<in>set (subscribers (states d (keyIdentifier k))).
          seen (resolve (keyIdentifier k) out (dispatch (Some k) p d)) s = Some False)
     \<and> status (states (resolve (keyIdentifier k) out (dispatch (Some k) p d))
          (keyIdentifier k)) = Idle"
  by (cases out) (simp_all add: dispatch_def resolve_def Let_def notify_member)

text \<open>A button and a crumb mounted on \<open>K1\<close>, one outcome a success and one a failure.\<close>

theorem subscribers_observe_loading_witness:
  "status (states (run [Mount 1 (Some (EventKey ''K1'')), Mount 2 (Some (EventKey ''K1''))]
       initial) (keyIdentifier (EventKey ''K1''))) = Idle
   \<and> subscribers (states (run [Mount 1 (Some (EventKey ''K1'')),
       Mount 2 (Some (EventKey ''K1''))] initial) ''K1'') = [2, 1]
   \<and> seen (run [Mount 1 (Some (EventKey ''K1'')), Mount 2 (Some (EventKey ''K1'')),
       DoDispatch (Some (EventKey ''K1'')) PNull] initial) 1 = Some True
   \<and> seen (run [Mount 1 (Some (EventKey ''K1'')), Mount 2 (Some (EventKey ''K1'')),
       DoDispatch (Some (EventKey ''K1'')) PNull] initial) 2 = Some True
   \<and> seen (run [Mount 1 (Some (EventKey ''K1'')), Mount 2 (Some (EventKey ''K1'')),
       DoDispatch (Some (EventKey ''K1'')) PNull, Resolve ''K1'' Success] initial) 1 = Some False
   \<and> seen (run [Mount 1 (Some (EventKey ''K1'')), Mount 2 (Some (EventKey ''K1'')),
       DoDispatch (Some (EventKey ''K1'')) PNull, Resolve ''K1'' (Failure ''rejected'')]
       initial) 2 = Some False"
  using subscribers_observe_loading [of
      "run [Mount 1 (Some (EventKey ''K1'')), Mount 2 (Some (EventKey ''K1''))] initial"
      "EventKey ''K1''" PNull Success]
    subscribers_observe_loading [of
      "run [Mount 1 (Some (EventKey ''K1'')), Mount 2 (Some (EventKey ''K1''))] initial"
      "EventKey ''K1''" PNull "Failure ''rejected''"]
  by (simp add: initial_def idle_state_def subscribe_def Let_def)

section \<open>A failed dispatch\<close>

text \<open>
  C4. When the outcome of a dispatch in flight is a failure, the key's state is \<open>Idle\<close>
  again, the error is recorded (as the state's last error and as a diagnostic), and every
  subscriber has been told \<open>isLoading = false\<close>. The failure is a value the dispatcher
  stores, not an exception: the result is an ordinary dispatcher state. A query now
  returns \<open>isLoading = false\<close> and \<open>isDisabled = false\<close>, the button and the crumb are
  enabled, and a new dispatch is submitted on the channel.
\<close>

theorem engine_failure_recovers:
  "status (states d (keyIdentifier k)) = InFlight \<Longrightarrow>
     status (states (resolve (keyIdentifier k) (Failure e) d) (keyIdentifier k)) = Idle
     \<and> lastError (states (resolve (keyIdentifier k) (Failure e) d) (keyIdentifier k)) = Some e
     \<and> diagnostics (resolve (keyIdentifier k) (Failure e) d)
         = diagnostics d @ [EngineFailure (keyIdentifier k) e]
     \<and> (\<forall>s\<in>set (subscribers (states d (keyIdentifier k))).
          seen (resolve (keyIdentifier k) (Failure e) d) s = Some False)
     \<and> useDispatcher (resolve (keyIdentifier k) (Failure e) d) (Some k)
         = \<lparr>isLoading = False, isDisabled = False\<rparr>
     \<and> \<not> disabled (ButtonRender getColor (props\<lparr>event := Some k\<rparr>)
             (useDispatcher (resolve (keyIdentifier k) (Failure e) d) (Some k)))
     \<and> \<not> Crumb_disabled (useDispatcher (resolve (keyIdentifier k) (Failure e) d) (Some k))
     \<and> channel (dispatch (Some k) p (resolve (keyIdentifier k) (Failure e) d))
         = channel d @ [(keyIdentifier k, p)]
     \<and> status (states (dispatch (Some k) p (resolve (keyIdentifier k) (Failure e) d))
          (keyIdentifier k)) = InFlight"
  by (simp add: dispatch_def resolve_def Let_def notify_member useDispatcher_def
      ButtonRender_def button_isDisabled_def Crumb_disabled_def)

text \<open>A button mounted on \<open>K2\<close> and clicked, the engine rejects, and a retry.\<close>

theorem engine_failure_recovers_witness:
  "status (states (dispatch (Some (EventKey ''K2'')) PNull
       (subscribe 1 (Some (EventKey ''K2'')) initial)) (keyIdentifier (EventKey ''K2'')))
     = InFlight
   \<and> subscribers (states (dispatch (Some (EventKey ''K2'')) PNull
       (subscribe 1 (Some (EventKey ''K2'')) initial)) (keyIdentifier (EventKey ''K2''))) = [1]
   \<and> lastError (states (resolve ''K2'' (Failure ''rejected'')
       (dispatch (Some (EventKey ''K2'')) PNull
         (subscribe 1 (Some (EventKey ''K2'')) initial))) ''K2'') = Some ''rejected''
   \<and> seen (resolve ''K2'' (Failure ''rejected'')
       (dispatch (Some (EventKey ''K2'')) PNull
         (subscribe 1 (Some (EventKey ''K2'')) initial))) 1 = Some False
   \<and> channel (dispatch (Some (EventKey ''K2'')) PNull
       (resolve ''K2'' (Failure ''rejected'')
         (dispatch (Some (EventKey ''K2'')) PNull
           (subscribe 1 (Some (EventKey ''K2'')) initial))))
       = [(''K2'', PNull), (''K2'', PNull)]"
proof -
  let ?k = "EventKey ''K2''"
  let ?d = "dispatch (Some ?k) PNull (subscribe 1 (Some ?k) initial)"
  have id: "keyIdentifier ?k = ''K2''"
    by simp
  have busy: "status (states ?d (keyIdentifier ?k)) = InFlight"
    by (simp add: dispatch_def subscribe_def initial_def idle_state_def Let_def)
  have subs: "subscribers (states ?d (keyIdentifier ?k)) = [1]"
    by (simp add: dispatch_def subscribe_def initial_def idle_state_def Let_def)
  have ch: "channel ?d = [(''K2'', PNull)]"
    by (simp add: dispatch_def subscribe_def initial_def idle_state_def Let_def)
  from engine_failure_recovers [OF busy, of "''rejected''" "\<lambda>c n. type c"
      "\<lparr>event = None, color = None, full = None, label = ''Save'', leadingIcon = None,
        outline = None, size_prop = None, trailingIcon = None\<rparr>" PNull] subs ch
  have "lastError (states (resolve ''K2'' (Failure ''rejected'') ?d) ''K2'') = Some ''rejected''"
    and "seen (resolve ''K2'' (Failure ''rejected'') ?d) 1 = Some False"
    and "channel (dispatch (Some ?k) PNull (resolve ''K2'' (Failure ''rejected'') ?d))
           = [(''K2'', PNull), (''K2'', PNull)]"
    unfolding id by simp_all
  with busy subs show ?thesis
    by blast
qed

section \<open>The bubble marker\<close>












end
